theory Spec2Isabelle
  imports Complex_Main
begin

section \<open>Data model\<close>

text \<open>
  The pipeline of \<^verbatim>\<open>main.py\<close> moves one pandas DataFrame from an HTTP export to a
  PostgreSQL table. A DataFrame is modelled column-wise: its row count and the list of
  its columns, each a label with the cells of that column. The list keeps the order of
  the columns and allows a label to occur twice, as pandas does.
\<close>

record date =
  d_year :: int
  d_month :: nat
  d_day :: nat

record timestamp =
  ts_date :: date
  ts_hour :: nat
  ts_minute :: nat
  ts_second :: nat
  ts_zone :: "int option"

text \<open>
  A cell is missing (\<open>NaN\<close> stands for NaN, NaT, None and NA alike), a text, a number,
  a timestamp (to the second; zoned when \<open>ts_zone\<close> holds an offset) or a calendar date. Numbers are exact
  rationals: the model does not distinguish int64 from float64, a number is an integer
  when its value is whole.
\<close>

datatype cell = NaN | Str string | Num rat | Time timestamp | Day date

record frame =
  nrows :: nat
  cols :: "(string \<times> cell list) list"

datatype error =
  RequestException | HTTPError | ParserError
  | KeyError | ValueError | TypeError | AttributeError
  | DuplicateColumnError | DatabaseError

definition names :: "frame \<Rightarrow> string list" where
  "names df = map fst (cols df)"

definition empty :: "frame \<Rightarrow> bool" where
  \<comment> \<open>\<^verbatim>\<open>df.empty\<close>: an axis of length zero\<close>
  "empty df = (nrows df = 0 \<or> cols df = [])"

definition sbind :: "error + 'a \<Rightarrow> ('a \<Rightarrow> error + 'b) \<Rightarrow> error + 'b" where
  \<comment> \<open>sequencing of two statements: an exception of the first skips the second\<close>
  "sbind r f = (case r of Inl e \<Rightarrow> Inl e | Inr x \<Rightarrow> f x)"

section \<open>The pandas operations the mapping stage calls\<close>

text \<open>
  \<^verbatim>\<open>pd.to_datetime(..., errors='coerce')\<close>, the \<^verbatim>\<open>.dt\<close> accessor and
  \<^verbatim>\<open>pd.to_numeric(..., errors='coerce')\<close> are library code, and they work on a column as
  a whole: what they read in a cell may depend on the other cells (the date format
  inferred from the first value, the float64 a column with a missing cell is sent
  through), and \<^verbatim>\<open>pd.to_datetime\<close> and \<^verbatim>\<open>.dt\<close> may refuse a column altogether (mixed
  UTC offsets). Their behaviour is a parameter of the model:
  \<^item> \<open>datetime_error cs\<close> is the exception \<^verbatim>\<open>pd.to_datetime\<close> raises on the column
    \<open>cs\<close>, if any;
  \<^item> \<open>datetime_of cs c\<close> is the timestamp it reads in the cell \<open>c\<close> of the column \<open>cs\<close>,
    \<open>None\<close> when it reads none, which \<^verbatim>\<open>errors='coerce'\<close> turns into a missing cell;
  \<^item> \<open>dt_error ts\<close> is the exception \<^verbatim>\<open>.dt\<close> raises on the converted column \<open>ts\<close>, if
    any;
  \<^item> \<open>numeric_of cs c\<close> is the number \<^verbatim>\<open>pd.to_numeric\<close> reads in the cell \<open>c\<close> of the
    column \<open>cs\<close>, \<open>None\<close> when it reads none.
\<close>

record pandas =
  datetime_error :: "cell list \<Rightarrow> error option"
  datetime_of :: "cell list \<Rightarrow> cell \<Rightarrow> timestamp option"
  dt_error :: "cell list \<Rightarrow> error option"
  numeric_of :: "cell list \<Rightarrow> cell \<Rightarrow> rat option"

definition datetime_cell :: "pandas \<Rightarrow> cell list \<Rightarrow> cell \<Rightarrow> cell" where
  "datetime_cell pd cs c = (case datetime_of pd cs c of Some t \<Rightarrow> Time t | None \<Rightarrow> NaN)"

definition date_cell :: "cell \<Rightarrow> cell" where
  "date_cell c = (case c of Time t \<Rightarrow> Day (ts_date t) | _ \<Rightarrow> NaN)"

definition numeric_cell :: "pandas \<Rightarrow> cell list \<Rightarrow> cell \<Rightarrow> cell" where
  "numeric_cell pd cs c = (case numeric_of pd cs c of Some x \<Rightarrow> Num x | None \<Rightarrow> NaN)"

definition datetime_cells :: "pandas \<Rightarrow> cell list \<Rightarrow> cell list" where
  "datetime_cells pd cs = map (datetime_cell pd cs) cs"

definition to_datetime :: "pandas \<Rightarrow> cell list \<Rightarrow> error + cell list" where
  "to_datetime pd cs =
     (case datetime_error pd cs of Some e \<Rightarrow> Inl e | None \<Rightarrow> Inr (datetime_cells pd cs))"

definition dt_date :: "pandas \<Rightarrow> cell list \<Rightarrow> error + cell list" where
  \<comment> \<open>\<^verbatim>\<open>.dt.date\<close> on a converted column: the calendar date, NaT stays missing\<close>
  "dt_date pd ts =
     (case dt_error pd ts of Some e \<Rightarrow> Inl e | None \<Rightarrow> Inr (map date_cell ts))"

definition to_numeric :: "pandas \<Rightarrow> cell list \<Rightarrow> cell list" where
  "to_numeric pd cs = map (numeric_cell pd cs) cs"

definition is_whole :: "rat \<Rightarrow> bool" where
  "is_whole x = (of_int \<lfloor>x\<rfloor> = x)"

definition in_int64 :: "rat \<Rightarrow> bool" where
  "in_int64 x = (- 9223372036854775808 \<le> x \<and> x < 9223372036854775808)"

definition int64_or_missing :: "cell \<Rightarrow> bool" where
  "int64_or_missing c =
     (case c of NaN \<Rightarrow> True | Num x \<Rightarrow> is_whole x \<and> in_int64 x | _ \<Rightarrow> False)"

definition astype_Int64 :: "cell list \<Rightarrow> error + cell list" where
  \<comment> \<open>\<^verbatim>\<open>.astype('Int64')\<close>: the safe cast refuses a number that is not whole or that no
      int64 holds\<close>
  "astype_Int64 cs = (if list_all int64_or_missing cs then Inr cs else Inl TypeError)"

definition rename :: "(string \<times> string) list \<Rightarrow> frame \<Rightarrow> frame" where
  \<comment> \<open>\<^verbatim>\<open>df.rename(columns=...)\<close>: a label in the dict is replaced, any other is kept\<close>
  "rename m df =
     df\<lparr>cols := map (\<lambda>c. (case map_of m (fst c) of Some d \<Rightarrow> d | None \<Rightarrow> fst c, snd c)) (cols df)\<rparr>"

definition getitem :: "string \<Rightarrow> frame \<Rightarrow> (string \<times> cell list) list" where
  \<comment> \<open>the columns carrying the label \<open>k\<close>, in frame order\<close>
  "getitem k df = filter (\<lambda>c. fst c = k) (cols df)"

definition getitem_list :: "string list \<Rightarrow> frame \<Rightarrow> error + frame" where
  \<comment> \<open>\<^verbatim>\<open>df[keys]\<close>: every column of each label, in the order of \<open>keys\<close>; a label that
      no column carries raises KeyError\<close>
  "getitem_list keys df =
     (if list_all (\<lambda>k. getitem k df \<noteq> []) keys
      then Inr (df\<lparr>cols := concat (map (\<lambda>k. getitem k df) keys)\<rparr>)
      else Inl KeyError)"

definition setitem_with ::
  "error \<Rightarrow> (cell list \<Rightarrow> error + cell list) \<Rightarrow> string \<Rightarrow> frame \<Rightarrow> error + frame" where
  \<comment> \<open>\<^verbatim>\<open>df[k] = f(df[k])\<close>. \<^verbatim>\<open>df[k]\<close> is a Series when one column carries the label; it
      is a DataFrame when several do, which \<open>f\<close> refuses with \<open>e\<close>\<close>
  "setitem_with e f k df =
     (case getitem k df of
        [] \<Rightarrow> Inl KeyError
      | [c] \<Rightarrow> sbind (f (snd c))
                 (\<lambda>cs. Inr (df\<lparr>cols := map (\<lambda>c'. if fst c' = k then (k, cs) else c') (cols df)\<rparr>))
      | _ \<Rightarrow> Inl e)"

section \<open>The mapping stage of \<^verbatim>\<open>clean_and_insert_data\<close>\<close>

definition column_renames :: "(string \<times> string) list" where
  "column_renames =
    [(''start'', ''start_time''),
     (''end'', ''end_time''),
     (''Date of reporting'', ''date_of_reporting''),
     (''Store Location'', ''store_location''),
     (''Gender'', ''gender''),
     (''Age'', ''age''),
     (''How satisfy are you with the product pricing'', ''product_pricing_satisfaction''),
     (''How satified are you with the customers services'', ''customer_service_satisfaction''),
     (''What is your overall satisfaction'', ''overall_satisfaction''),
     (''What are your recommendations'', ''recommendations''),
     (''_id'', ''submission_id''),
     (''_uuid'', ''uuid''),
     (''_submission_time'', ''submission_time''),
     (''_validation_status'', ''validation_status''),
     (''_notes'', ''notes''),
     (''_status'', ''status''),
     (''_submitted_by'', ''submitted_by''),
     (''__version__'', ''version''),
     (''_tags'', ''tags''),
     (''_index'', ''index_value'')]"

definition columns_to_insert :: "string list" where
  "columns_to_insert =
    [''start_time'', ''end_time'', ''date_of_reporting'', ''store_location'',
     ''gender'', ''age'', ''product_pricing_satisfaction'',
     ''customer_service_satisfaction'', ''overall_satisfaction'',
     ''recommendations'', ''submission_id'', ''uuid'', ''submission_time'',
     ''validation_status'', ''notes'', ''status'', ''submitted_by'',
     ''version'', ''tags'', ''index_value'']"

definition select_columns :: "frame \<Rightarrow> error + frame" where
  \<comment> \<open>lines 151 to 186: rename, then \<^verbatim>\<open>df_clean[columns_to_insert]\<close>\<close>
  "select_columns df = getitem_list columns_to_insert (rename column_renames df)"

definition set_datetime :: "pandas \<Rightarrow> string \<Rightarrow> frame \<Rightarrow> error + frame" where
  "set_datetime pd = setitem_with ValueError (to_datetime pd)"

definition set_date :: "pandas \<Rightarrow> string \<Rightarrow> frame \<Rightarrow> error + frame" where
  "set_date pd = setitem_with ValueError (\<lambda>cs. sbind (to_datetime pd cs) (dt_date pd))"

definition set_numeric :: "pandas \<Rightarrow> string \<Rightarrow> frame \<Rightarrow> error + frame" where
  "set_numeric pd = setitem_with TypeError (\<lambda>cs. Inr (to_numeric pd cs))"

definition set_Int64 :: "pandas \<Rightarrow> string \<Rightarrow> frame \<Rightarrow> error + frame" where
  "set_Int64 pd = setitem_with TypeError (\<lambda>cs. astype_Int64 (to_numeric pd cs))"

definition convert_columns :: "pandas \<Rightarrow> frame \<Rightarrow> error + frame" where
  \<comment> \<open>lines 189 to 200, one assignment after the other\<close>
  "convert_columns pd d0 =
     sbind (set_datetime pd ''start_time'' d0) (\<lambda>d1.
     sbind (set_datetime pd ''end_time'' d1) (\<lambda>d2.
     sbind (set_date pd ''date_of_reporting'' d2) (\<lambda>d3.
     sbind (set_datetime pd ''submission_time'' d3) (\<lambda>d4.
     sbind (set_numeric pd ''age'' d4) (\<lambda>d5.
     sbind (set_numeric pd ''product_pricing_satisfaction'' d5) (\<lambda>d6.
     sbind (set_numeric pd ''customer_service_satisfaction'' d6) (\<lambda>d7.
     sbind (set_numeric pd ''overall_satisfaction'' d7) (\<lambda>d8.
     sbind (set_Int64 pd ''submission_id'' d8) (\<lambda>d9.
     set_numeric pd ''index_value'' d9)))))))))"

definition clean :: "pandas \<Rightarrow> frame \<Rightarrow> error + frame" where
  \<comment> \<open>the frame handed to \<^verbatim>\<open>to_sql\<close>, or the exception raised before it\<close>
  "clean pd df = sbind (select_columns df) (convert_columns pd)"

section \<open>A library instance for the examples\<close>

text \<open>
  The general theorems hold for every \<open>pandas\<close> parameter. The examples are evaluated
  with the instance below, on frames of one row. It raises on no column, keeps a number,
  reads a text of decimal digits as that number, a text of the form
  \<^verbatim>\<open>YYYY-MM-DDTHH:MM:SSZ\<close> as that instant in UTC and a text of the form \<^verbatim>\<open>YYYY-MM-DD\<close>
  as the midnight of that day without zone, keeps a timestamp, and reads nothing
  otherwise. It agrees with pandas on the one-cell columns of the examples (a number,
  \<^verbatim>\<open>34\<close>, \<^verbatim>\<open>991\<close>, the word \<^verbatim>\<open>thirty\<close>, the instant and the day of the examples, a
  missing cell); it is not a model of pandas on other columns.
\<close>

definition digit_of :: "char \<Rightarrow> nat option" where
  "digit_of c = (let n = (of_char c :: nat) in if 48 \<le> n \<and> n \<le> 57 then Some (n - 48) else None)"

fun digits_value :: "nat \<Rightarrow> string \<Rightarrow> nat option" where
  "digits_value acc [] = Some acc"
| "digits_value acc (c # cs) =
     (case digit_of c of None \<Rightarrow> None | Some d \<Rightarrow> digits_value (10 * acc + d) cs)"

definition decimal :: "string \<Rightarrow> nat option" where
  "decimal s = (if s = [] then None else digits_value 0 s)"

definition days_in_month :: "nat \<Rightarrow> nat \<Rightarrow> nat" where
  "days_in_month y m =
     (if m = 2 then (if y mod 4 = 0 \<and> (y mod 100 \<noteq> 0 \<or> y mod 400 = 0) then 29 else 28)
      else if m = 4 \<or> m = 6 \<or> m = 9 \<or> m = 11 then 30 else 31)"

definition civil_date :: "string \<Rightarrow> date option" where
  \<comment> \<open>\<^verbatim>\<open>YYYY-MM-DD\<close>\<close>
  "civil_date s =
     (if length s = 10 \<and> s ! 4 = CHR ''-'' \<and> s ! 7 = CHR ''-''
      then
        (case (decimal (take 4 s), decimal (take 2 (drop 5 s)), decimal (take 2 (drop 8 s))) of
           (Some y, Some m, Some d) \<Rightarrow>
             (if 1 \<le> m \<and> m \<le> 12 \<and> 1 \<le> d \<and> d \<le> days_in_month y m
              then Some \<lparr>d_year = int y, d_month = m, d_day = d\<rparr>
              else None)
         | _ \<Rightarrow> None)
      else None)"

definition clock_time :: "string \<Rightarrow> (nat \<times> nat \<times> nat) option" where
  \<comment> \<open>\<^verbatim>\<open>HH:MM:SS\<close>\<close>
  "clock_time s =
     (if length s = 8 \<and> s ! 2 = CHR '':'' \<and> s ! 5 = CHR '':''
      then
        (case (decimal (take 2 s), decimal (take 2 (drop 3 s)), decimal (take 2 (drop 6 s))) of
           (Some h, Some mi, Some sec) \<Rightarrow>
             (if h < 24 \<and> mi < 60 \<and> sec < 60 then Some (h, mi, sec) else None)
         | _ \<Rightarrow> None)
      else None)"

definition iso_utc :: "string \<Rightarrow> timestamp option" where
  \<comment> \<open>\<^verbatim>\<open>YYYY-MM-DDTHH:MM:SSZ\<close>, or \<^verbatim>\<open>YYYY-MM-DD\<close> alone\<close>
  "iso_utc s =
     (if length s = 10
      then map_option
             (\<lambda>d. \<lparr>ts_date = d, ts_hour = 0, ts_minute = 0, ts_second = 0, ts_zone = None\<rparr>)
             (civil_date s)
      else if length s = 20 \<and> s ! 10 = CHR ''T'' \<and> s ! 19 = CHR ''Z''
      then
        (case (civil_date (take 10 s), clock_time (take 8 (drop 11 s))) of
           (Some d, Some (h, mi, sec)) \<Rightarrow>
             Some \<lparr>ts_date = d, ts_hour = h, ts_minute = mi, ts_second = sec, ts_zone = Some 0\<rparr>
         | _ \<Rightarrow> None)
      else None)"

definition pandas_sample :: pandas where
  "pandas_sample =
     \<lparr>datetime_error = (\<lambda>cs. None),
      datetime_of = (\<lambda>cs c. case c of Str s \<Rightarrow> iso_utc s | Time t \<Rightarrow> Some t | _ \<Rightarrow> None),
      dt_error = (\<lambda>ts. None),
      numeric_of = (\<lambda>cs c. case c of Num x \<Rightarrow> Some x
                                  | Str s \<Rightarrow> map_option (\<lambda>n. of_nat n) (decimal s)
                                  | _ \<Rightarrow> None)\<rparr>"

section \<open>The remote export\<close>

text \<open>
  The reply of the export endpoint is an input of the run: no reply at all (the request
  raises), or a status together with what \<^verbatim>\<open>pd.read_csv(sep=';', on_bad_lines='skip')\<close>
  makes of the body, which is a frame or an exception of the parser.
\<close>

datatype csv = Unparsable | Parsed frame

datatype http_reply = No_reply | Reply nat csv

definition raise_for_status :: "nat \<Rightarrow> error + unit" where
  \<comment> \<open>requests raises HTTPError on a client or server error status\<close>
  "raise_for_status status = (if 400 \<le> status \<and> status < 600 then Inl HTTPError else Inr ())"

definition read_csv :: "csv \<Rightarrow> error + frame" where
  "read_csv body = (case body of Unparsable \<Rightarrow> Inl ParserError | Parsed df \<Rightarrow> Inr df)"

definition fetch_body :: "http_reply \<Rightarrow> error + frame" where
  \<comment> \<open>the \<^verbatim>\<open>try\<close> block of \<^verbatim>\<open>fetch_kobo_data\<close>\<close>
  "fetch_body reply =
     (case reply of
        No_reply \<Rightarrow> Inl RequestException
      | Reply status body \<Rightarrow> sbind (raise_for_status status) (\<lambda>_. read_csv body))"

definition fetch_kobo_data :: "http_reply \<Rightarrow> error + frame option" where
  \<comment> \<open>\<^verbatim>\<open>except Exception\<close>: report and return None\<close>
  "fetch_kobo_data reply =
     (case fetch_body reply of Inl e \<Rightarrow> Inr None | Inr df \<Rightarrow> Inr (Some df))"

section \<open>The destination store\<close>

datatype sqltype =
  Serial_primary_key | Timestamp_with_time_zone | Timestamp_plain | Date_type
  | Varchar nat | Integer | Bigint | Text_type | Timestamp_default_now | Inferred

record table =
  tbl_columns :: "(string \<times> sqltype) list"
  tbl_rows :: "cell list list"

text \<open>
  The store holds its schemas and the one table the pipeline works on,
  \<^verbatim>\<open>feedback_ghana.customer_feedback\<close>. The values the server generates for a row
  (\<^verbatim>\<open>id\<close>, \<^verbatim>\<open>created_at\<close>) are not materialised in \<open>tbl_rows\<close>.
\<close>

record database =
  schemas :: "string set"
  feedback_table :: "table option"

definition customer_feedback_columns :: "(string \<times> sqltype) list" where
  \<comment> \<open>the CREATE TABLE statement of \<^verbatim>\<open>create_schema_and_table\<close>\<close>
  "customer_feedback_columns =
    [(''id'', Serial_primary_key),
     (''start_time'', Timestamp_with_time_zone),
     (''end_time'', Timestamp_with_time_zone),
     (''date_of_reporting'', Date_type),
     (''store_location'', Varchar 255),
     (''gender'', Varchar 50),
     (''age'', Integer),
     (''product_pricing_satisfaction'', Integer),
     (''customer_service_satisfaction'', Integer),
     (''overall_satisfaction'', Integer),
     (''recommendations'', Text_type),
     (''submission_id'', Bigint),
     (''uuid'', Varchar 255),
     (''submission_time'', Timestamp_plain),
     (''validation_status'', Varchar 100),
     (''notes'', Text_type),
     (''status'', Varchar 100),
     (''submitted_by'', Varchar 255),
     (''version'', Varchar 100),
     (''tags'', Text_type),
     (''index_value'', Integer),
     (''created_at'', Timestamp_default_now)]"

datatype stmt =
  Select_1 | Create_schema | Drop_table | Create_table
  | Insert_rows frame | Select_count | Select_sample

definition stored_rows ::
  "(sqltype \<Rightarrow> cell \<Rightarrow> cell) \<Rightarrow> (string \<times> sqltype) list \<Rightarrow> frame \<Rightarrow> cell list list" where
  \<comment> \<open>the rows of a frame as the store keeps them: each cell cast to the type of its column\<close>
  "stored_rows cast tys df =
     map (\<lambda>i. map (\<lambda>c. cast (case map_of tys (fst c) of Some ty \<Rightarrow> ty | None \<Rightarrow> Inferred)
                               (snd c ! i))
                  (cols df))
         [0..<nrows df]"

definition count_rows :: "database \<Rightarrow> nat" where
  "count_rows d = (case feedback_table d of None \<Rightarrow> 0 | Some t \<Rightarrow> length (tbl_rows t))"

definition apply_stmt ::
  "(sqltype \<Rightarrow> cell \<Rightarrow> cell) \<Rightarrow> stmt \<Rightarrow> database \<Rightarrow> error + database" where
  "apply_stmt cast s d =
     (case s of
        Select_1 \<Rightarrow> Inr d
      | Create_schema \<Rightarrow> Inr (d\<lparr>schemas := insert ''feedback_ghana'' (schemas d)\<rparr>)
      | Drop_table \<Rightarrow> Inr (d\<lparr>feedback_table := None\<rparr>)
      | Create_table \<Rightarrow>
          (if ''feedback_ghana'' \<in> schemas d \<and> feedback_table d = None
           then Inr (d\<lparr>feedback_table :=
                        Some \<lparr>tbl_columns = customer_feedback_columns, tbl_rows = []\<rparr>\<rparr>)
           else Inl DatabaseError)
      | Insert_rows df \<Rightarrow>
          \<comment> \<open>the statements of \<^verbatim>\<open>to_sql(if_exists='append')\<close>: append to the table, after
              creating it when it is absent\<close>
          (case feedback_table d of
             None \<Rightarrow>
               (if ''feedback_ghana'' \<in> schemas d
                then Inr (d\<lparr>feedback_table :=
                             Some \<lparr>tbl_columns = map (\<lambda>n. (n, Inferred)) (names df),
                                   tbl_rows = stored_rows cast [] df\<rparr>\<rparr>)
                else Inl DatabaseError)
           | Some t \<Rightarrow>
               (if set (names df) \<subseteq> fst ` set (tbl_columns t)
                then Inr (d\<lparr>feedback_table :=
                             Some (t\<lparr>tbl_rows :=
                                       tbl_rows t @ stored_rows cast (tbl_columns t) df\<rparr>)\<rparr>)
                else Inl DatabaseError))
      | Select_count \<Rightarrow> (if feedback_table d = None then Inl DatabaseError else Inr d)
      | Select_sample \<Rightarrow> (if feedback_table d = None then Inl DatabaseError else Inr d))"

text \<open>
  What lies outside the program is an input of the run: the reply of the export endpoint,
  whether the store can be reached, which statements the store refuses for a reason
  of its own (lost connection, missing privilege, a value it rejects), and the value the
  store keeps for a cell sent to a column of a given type (its assignment cast: a number
  sent to an integer column is rounded).
\<close>

record env =
  http :: http_reply
  connect_fails :: bool
  db_rejects :: "stmt \<Rightarrow> bool"
  stored_as :: "sqltype \<Rightarrow> cell \<Rightarrow> cell"

text \<open>The state a run works on: the store, and the statements issued against it so far.\<close>

record world =
  db :: database
  issued :: "stmt list"

datatype engine = Engine

definition execute :: "env \<Rightarrow> stmt \<Rightarrow> world \<Rightarrow> (error + unit) \<times> world" where
  "execute ev s w =
     (let w' = w\<lparr>issued := issued w @ [s]\<rparr> in
      if db_rejects ev s then (Inl DatabaseError, w')
      else (case apply_stmt (stored_as ev) s (db w) of
              Inl e \<Rightarrow> (Inl e, w')
            | Inr d \<Rightarrow> (Inr (), w'\<lparr>db := d\<rparr>)))"

definition wbind ::
  "(world \<Rightarrow> (error + 'a) \<times> world) \<Rightarrow> ('a \<Rightarrow> world \<Rightarrow> (error + 'b) \<times> world)
    \<Rightarrow> world \<Rightarrow> (error + 'b) \<times> world" where
  \<comment> \<open>sequencing of two statements that act on the store\<close>
  "wbind m f w = (case m w of (Inl e, w') \<Rightarrow> (Inl e, w') | (Inr x, w') \<Rightarrow> f x w')"

section \<open>The stages\<close>

definition connect_body :: "env \<Rightarrow> world \<Rightarrow> (error + engine) \<times> world" where
  \<comment> \<open>the \<^verbatim>\<open>try\<close> block of \<^verbatim>\<open>create_database_connection\<close>\<close>
  "connect_body ev w =
     (if connect_fails ev then (Inl DatabaseError, w)
      else wbind (execute ev Select_1) (\<lambda>_ w'. (Inr Engine, w')) w)"

definition create_database_connection :: "env \<Rightarrow> world \<Rightarrow> (error + engine option) \<times> world" where
  \<comment> \<open>\<^verbatim>\<open>except Exception\<close>: report and return None\<close>
  "create_database_connection ev w =
     (case connect_body ev w of
        (Inl e, w') \<Rightarrow> (Inr None, w')
      | (Inr en, w') \<Rightarrow> (Inr (Some en), w'))"

definition create_schema_and_table :: "env \<Rightarrow> world \<Rightarrow> (error + unit) \<times> world" where
  \<comment> \<open>\<^verbatim>\<open>except Exception\<close>: report and raise again\<close>
  "create_schema_and_table ev =
     wbind (execute ev Create_schema) (\<lambda>_.
     wbind (execute ev Drop_table) (\<lambda>_.
     execute ev Create_table))"

definition to_sql :: "env \<Rightarrow> frame \<Rightarrow> world \<Rightarrow> (error + unit) \<times> world" where
  \<comment> \<open>\<^verbatim>\<open>df_clean.to_sql(...)\<close>: a frame with two columns of one label is refused while the
      table object is built, before any statement is sent\<close>
  "to_sql ev df w =
     (if distinct (names df) then execute ev (Insert_rows df) w
      else (Inl DuplicateColumnError, w))"

definition clean_and_insert_data :: "pandas \<Rightarrow> env \<Rightarrow> frame \<Rightarrow> world \<Rightarrow> (error + unit) \<times> world" where
  \<comment> \<open>\<^verbatim>\<open>except Exception\<close>: report and raise again\<close>
  "clean_and_insert_data pd ev df w =
     (case clean pd df of
        Inl e \<Rightarrow> (Inl e, w)
      | Inr df_clean \<Rightarrow> to_sql ev df_clean w)"

definition verify :: "env \<Rightarrow> world \<Rightarrow> (error + unit) \<times> world" where
  \<comment> \<open>step 5 of \<^verbatim>\<open>main\<close>: the count, and the sample when the count is positive\<close>
  "verify ev =
     wbind (execute ev Select_count) (\<lambda>_ w.
       if count_rows (db w) > 0 then execute ev Select_sample w else (Inr (), w))"

datatype finish = No_data | No_engine | Completed

definition main :: "pandas \<Rightarrow> env \<Rightarrow> world \<Rightarrow> (error + finish) \<times> world" where
  "main pd ev w =
     (case fetch_kobo_data (http ev) of
        Inl e \<Rightarrow> (Inl e, w)
      | Inr None \<Rightarrow> (Inr No_data, w)
      | Inr (Some df) \<Rightarrow>
          if empty df then (Inr No_data, w)
          else
            wbind (create_database_connection ev) (\<lambda>engine.
              case engine of
                None \<Rightarrow> (\<lambda>w'. (Inr No_engine, w'))
              | Some _ \<Rightarrow>
                  wbind (create_schema_and_table ev) (\<lambda>_.
                  wbind (clean_and_insert_data pd ev df) (\<lambda>_.
                  wbind (verify ev) (\<lambda>_ w'. (Inr Completed, w'))))) w)"

section \<open>Vocabulary of the properties\<close>

definition column :: "string \<Rightarrow> frame \<Rightarrow> cell list" where
  \<comment> \<open>the cells of the first column labelled \<open>k\<close>\<close>
  "column k df = (case getitem k df of [] \<Rightarrow> [] | c # _ \<Rightarrow> snd c)"

definition mappable :: "frame \<Rightarrow> bool" where
  \<comment> \<open>after renaming, each destination label is carried by exactly one column\<close>
  "mappable df =
     list_all (\<lambda>k. length (getitem k (rename column_renames df)) = 1) columns_to_insert"

definition lacks_column :: "frame \<Rightarrow> bool" where
  \<comment> \<open>after renaming, some destination label is carried by no column\<close>
  "lacks_column df =
     (\<not> list_all (\<lambda>k. k \<in> set (names (rename column_renames df))) columns_to_insert)"

definition ids_castable :: "pandas \<Rightarrow> frame \<Rightarrow> bool" where
  \<comment> \<open>every submission id is missing or coerces to a whole number that an int64 holds\<close>
  "ids_castable pd df =
     list_all int64_or_missing
       (to_numeric pd (column ''submission_id'' (rename column_renames df)))"

definition first_error :: "error option list \<Rightarrow> error option" where
  "first_error es = (case filter (\<lambda>e. e \<noteq> None) es of [] \<Rightarrow> None | e # _ \<Rightarrow> e)"

definition datetime_failure :: "pandas \<Rightarrow> frame \<Rightarrow> error option" where
  \<comment> \<open>the exception the library raises on a timestamp or date column of the renamed frame,
      the first in the order of the assignments, if any\<close>
  "datetime_failure pd df =
     first_error
       [datetime_error pd (column ''start_time'' (rename column_renames df)),
        datetime_error pd (column ''end_time'' (rename column_renames df)),
        datetime_error pd (column ''date_of_reporting'' (rename column_renames df)),
        dt_error pd (datetime_cells pd (column ''date_of_reporting'' (rename column_renames df))),
        datetime_error pd (column ''submission_time'' (rename column_renames df))]"

text \<open>
  The per-column type rule of the specification: timestamp columns, the date column,
  the integer columns, and text for the rest. It is compared below with the ten
  assignments of \<open>convert_columns\<close>, which yield it when none of them raises.
\<close>

definition type_rule :: "pandas \<Rightarrow> string \<Rightarrow> cell list \<Rightarrow> cell list" where
  "type_rule pd k cs =
     (if k \<in> set [''start_time'', ''end_time'', ''submission_time''] then datetime_cells pd cs
      else if k = ''date_of_reporting'' then map date_cell (datetime_cells pd cs)
      else if k \<in> set [''age'', ''product_pricing_satisfaction'',
                        ''customer_service_satisfaction'', ''overall_satisfaction'',
                        ''submission_id'', ''index_value'']
      then to_numeric pd cs
      else cs)"

definition typed_frame :: "pandas \<Rightarrow> frame \<Rightarrow> frame" where
  "typed_frame pd df =
     \<lparr>nrows = nrows df,
      cols = map (\<lambda>k. (k, type_rule pd k (column k (rename column_renames df))))
               columns_to_insert\<rparr>"


definition is_text_type :: "sqltype \<Rightarrow> bool" where
  "is_text_type t = (case t of Varchar _ \<Rightarrow> True | Text_type \<Rightarrow> True | _ \<Rightarrow> False)"

definition count_type :: "(sqltype \<Rightarrow> bool) \<Rightarrow> nat" where
  \<comment> \<open>how many columns of the CREATE TABLE statement have a type of the given kind\<close>
  "count_type P = length (filter (\<lambda>c. P (snd c)) customer_feedback_columns)"


definition skips_verification :: "world \<Rightarrow> world \<Rightarrow> bool" where
  \<comment> \<open>between the two states, statements were only added, and neither the count query nor
      the sample select is among them\<close>
  "skips_verification w w' =
     (take (length (issued w)) (issued w') = issued w
      \<and> Select_count \<notin> set (drop (length (issued w)) (issued w'))
      \<and> Select_sample \<notin> set (drop (length (issued w)) (issued w')))"

section \<open>Example inputs\<close>

definition one_row :: "(string \<times> cell) list \<Rightarrow> frame" where
  \<comment> \<open>the frame of a single row, given as the dict of that row\<close>
  "one_row r = \<lparr>nrows = 1, cols = map (\<lambda>kv. (fst kv, [snd kv])) r\<rparr>"

definition survey_answers :: "(string \<times> cell) list" where
  "survey_answers =
    [(''Age'', Str ''34''), (''Gender'', Str ''Female''), (''_id'', Str ''991''),
     (''start'', Str ''2024-01-03T10:00:00Z'')]"

definition unanswered :: "(string \<times> cell) list" where
  \<comment> \<open>the other sixteen columns of the export, left blank\<close>
  "unanswered =
    [(''end'', NaN), (''Date of reporting'', NaN), (''Store Location'', NaN),
     (''How satisfy are you with the product pricing'', NaN),
     (''How satified are you with the customers services'', NaN),
     (''What is your overall satisfaction'', NaN),
     (''What are your recommendations'', NaN),
     (''_uuid'', NaN), (''_submission_time'', NaN), (''_validation_status'', NaN),
     (''_notes'', NaN), (''_status'', NaN), (''_submitted_by'', NaN),
     (''__version__'', NaN), (''_tags'', NaN), (''_index'', NaN)]"

definition full_row :: "cell \<Rightarrow> cell \<Rightarrow> frame" where
  \<comment> \<open>a one-row export with all twenty columns and one extra, with the given age and id\<close>
  "full_row age ident =
     one_row ([(''Age'', age), (''Gender'', Str ''Female''), (''_id'', ident),
               (''start'', Str ''2024-01-03T10:00:00Z''), (''deviceid'', Str ''x1'')]
              @ unanswered)"

definition header_only :: frame where
  \<comment> \<open>an export with its header line and no submission\<close>
  "header_only = \<lparr>nrows = 0, cols = map (\<lambda>k. (fst k, [])) column_renames\<rparr>"

definition quiet_env :: "http_reply \<Rightarrow> env" where
  \<comment> \<open>a reachable store that refuses nothing; it keeps a cell as sent, as the store does
      with the cells of the examples (texts, whole numbers, missing cells, an instant)\<close>
  "quiet_env reply =
     \<lparr>http = reply, connect_fails = False, db_rejects = (\<lambda>s. False),
      stored_as = (\<lambda>ty c. c)\<rparr>"

definition refusing_env :: "http_reply \<Rightarrow> stmt \<Rightarrow> env" where
  \<comment> \<open>a reachable store that refuses one statement\<close>
  "refusing_env reply s0 =
     \<lparr>http = reply, connect_fails = False, db_rejects = (\<lambda>s. s = s0),
      stored_as = (\<lambda>ty c. c)\<rparr>"

definition unreachable_env :: "http_reply \<Rightarrow> env" where
  "unreachable_env reply =
     \<lparr>http = reply, connect_fails = True, db_rejects = (\<lambda>s. False),
      stored_as = (\<lambda>ty c. c)\<rparr>"

definition stale_db :: database where
  \<comment> \<open>a store left by an earlier run, with two rows in the table\<close>
  "stale_db =
     \<lparr>schemas = {''feedback_ghana''},
      feedback_table =
        Some \<lparr>tbl_columns = customer_feedback_columns,
              tbl_rows = [replicate 20 NaN, replicate 20 NaN]\<rparr>\<rparr>"

definition typed_row :: "cell \<Rightarrow> cell \<Rightarrow> cell \<Rightarrow> frame" where
  \<comment> \<open>the row loaded for \<open>full_row\<close>, with the given start time, age and id\<close>
  "typed_row start age ident =
     one_row [(''start_time'', start), (''end_time'', NaN), (''date_of_reporting'', NaN),
              (''store_location'', NaN), (''gender'', Str ''Female''), (''age'', age),
              (''product_pricing_satisfaction'', NaN), (''customer_service_satisfaction'', NaN),
              (''overall_satisfaction'', NaN), (''recommendations'', NaN),
              (''submission_id'', ident), (''uuid'', NaN), (''submission_time'', NaN),
              (''validation_status'', NaN), (''notes'', NaN), (''status'', NaN),
              (''submitted_by'', NaN), (''version'', NaN), (''tags'', NaN),
              (''index_value'', NaN)]"

definition example_instant :: timestamp where
  "example_instant =
     \<lparr>ts_date = \<lparr>d_year = 2024, d_month = 1, d_day = 3\<rparr>,
      ts_hour = 10, ts_minute = 0, ts_second = 0, ts_zone = Some 0\<rparr>"


definition example_day :: date where
  "example_day = \<lparr>d_year = 2024, d_month = 1, d_day = 3\<rparr>"

definition short_export :: frame where
  \<comment> \<open>a one-row export of a form without the tags column: nineteen of the twenty columns\<close>
  "short_export = one_row (survey_answers @ filter (\<lambda>kv. fst kv \<noteq> ''_tags'') unanswered)"

section \<open>Statements and stages\<close>

lemma execute_cases:
  "execute ev s w =
     (if db_rejects ev s then (Inl DatabaseError, w\<lparr>issued := issued w @ [s]\<rparr>)
      else case apply_stmt (stored_as ev) s (db w) of
             Inl e \<Rightarrow> (Inl e, w\<lparr>issued := issued w @ [s]\<rparr>)
           | Inr d \<Rightarrow> (Inr (), w\<lparr>issued := issued w @ [s], db := d\<rparr>))"
  by (simp add: execute_def Let_def)

lemma provision_ok:
  assumes "\<not> db_rejects ev Create_schema" "\<not> db_rejects ev Drop_table" "\<not> db_rejects ev Create_table"
  shows "create_schema_and_table ev w =
     (Inr (), \<lparr>db = \<lparr>schemas = insert ''feedback_ghana'' (schemas (db w)),
                     feedback_table = Some \<lparr>tbl_columns = customer_feedback_columns, tbl_rows = []\<rparr>\<rparr>,
               issued = issued w @ [Create_schema, Drop_table, Create_table]\<rparr>)"
  using assms
  by (simp add: create_schema_and_table_def wbind_def execute_cases apply_stmt_def)

lemma provision_issued:
  "\<exists>tr. issued (snd (create_schema_and_table ev w)) = issued w @ tr
        \<and> Select_count \<notin> set tr \<and> Select_sample \<notin> set tr"
  by (auto simp add: create_schema_and_table_def wbind_def execute_cases apply_stmt_def split: sum.splits)

lemma load_issued:
  "\<exists>tr. issued (snd (clean_and_insert_data pd ev df w)) = issued w @ tr
        \<and> Select_count \<notin> set tr \<and> Select_sample \<notin> set tr"
  by (auto simp add: clean_and_insert_data_def to_sql_def execute_cases split: sum.splits)

lemma connect_cases:
  "create_database_connection ev w =
     (if connect_fails ev then (Inr None, w)
      else if db_rejects ev Select_1 then (Inr None, w\<lparr>issued := issued w @ [Select_1]\<rparr>)
      else (Inr (Some Engine), w\<lparr>issued := issued w @ [Select_1]\<rparr>))"
  by (simp add: create_database_connection_def connect_body_def wbind_def execute_cases apply_stmt_def)

lemma connect_body_cases:
  "connect_body ev w =
     (if connect_fails ev then (Inl DatabaseError, w)
      else if db_rejects ev Select_1 then (Inl DatabaseError, w\<lparr>issued := issued w @ [Select_1]\<rparr>)
      else (Inr Engine, w\<lparr>issued := issued w @ [Select_1]\<rparr>))"
  by (simp add: connect_body_def wbind_def execute_cases apply_stmt_def)

lemma fetch_cases:
  "fetch_kobo_data reply =
     (case reply of
        No_reply \<Rightarrow> Inr None
      | Reply status body \<Rightarrow>
          if 400 \<le> status \<and> status < 600 then Inr None
          else (case body of Unparsable \<Rightarrow> Inr None | Parsed df \<Rightarrow> Inr (Some df)))"
  by (auto simp add: fetch_kobo_data_def fetch_body_def raise_for_status_def read_csv_def sbind_def
      split: http_reply.splits csv.splits)

lemma fetch_body_cases:
  "fetch_body reply =
     (case reply of
        No_reply \<Rightarrow> Inl RequestException
      | Reply status body \<Rightarrow>
          if 400 \<le> status \<and> status < 600 then Inl HTTPError
          else (case body of Unparsable \<Rightarrow> Inl ParserError | Parsed df \<Rightarrow> Inr df))"
  by (auto simp add: fetch_body_def raise_for_status_def read_csv_def sbind_def
      split: http_reply.splits csv.splits)

section \<open>The mapping stage as a per-column rule\<close>

lemma getitem_single:
  assumes "length (getitem k df) = 1"
  shows "getitem k df = [(k, column k df)]"
proof -
  from assms obtain c where c: "getitem k df = [c]"
    by (cases "getitem k df") auto
  then have "c \<in> set (filter (\<lambda>c. fst c = k) (cols df))"
    by (simp add: getitem_def)
  then have "fst c = k" by simp
  with c show ?thesis by (cases c) (simp add: column_def)
qed

lemma getitem_list_single:
  assumes "list_all (\<lambda>k. length (getitem k df) = 1) keys"
  shows "getitem_list keys df = Inr (df\<lparr>cols := map (\<lambda>k. (k, column k df)) keys\<rparr>)"
proof -
  have a: "list_all (\<lambda>k. getitem k df \<noteq> []) keys"
    using assms by (induction keys) auto
  have b: "concat (map (\<lambda>k. getitem k df) keys) = map (\<lambda>k. (k, column k df)) keys"
    using assms by (induction keys) (auto simp add: getitem_single)
  show ?thesis by (simp add: getitem_list_def a b)
qed

lemma getitem_nonempty: "getitem k df \<noteq> [] \<longleftrightarrow> k \<in> set (names df)"
  by (auto simp add: getitem_def names_def filter_empty_conv)

lemma getitem_list_missing:
  "\<not> list_all (\<lambda>k. k \<in> set (names df)) keys \<Longrightarrow> getitem_list keys df = Inl KeyError"
  by (simp add: getitem_list_def getitem_nonempty)

lemma select_columns_mappable:
  "mappable df \<Longrightarrow>
   select_columns df =
     Inr \<lparr>nrows = nrows df,
          cols = map (\<lambda>k. (k, column k (rename column_renames df))) columns_to_insert\<rparr>"
  unfolding select_columns_def mappable_def
  by (simp add: getitem_list_single rename_def)

lemma select_columns_lacking: "lacks_column df \<Longrightarrow> select_columns df = Inl KeyError"
  by (simp add: lacks_column_def select_columns_def getitem_list_missing)

lemma filter_key:
  "distinct keys \<Longrightarrow> k \<in> set keys \<Longrightarrow>
   filter (\<lambda>c. fst c = k) (map (\<lambda>k. (k, f k)) keys) = [(k, f k)]"
proof (induction keys)
  case Nil
  then show ?case by simp
next
  case (Cons a keys)
  show ?case
  proof (cases "a = k")
    case True
    with Cons.prems have "k \<notin> set keys" by simp
    then have "filter (\<lambda>c. fst c = k) (map (\<lambda>k. (k, f k)) keys) = []"
      by (auto simp add: filter_empty_conv)
    with True show ?thesis by simp
  next
    case False
    with Cons show ?thesis by simp
  qed
qed

lemma setitem_keys:
  assumes "distinct keys" and "k \<in> set keys"
  shows "setitem_with e g k \<lparr>nrows = n, cols = map (\<lambda>k. (k, f k)) keys\<rparr> =
     sbind (g (f k))
       (\<lambda>cs. Inr \<lparr>nrows = n, cols = map (\<lambda>k'. (k', (f(k := cs)) k')) keys\<rparr>)"
proof -
  let ?d = "\<lparr>nrows = n, cols = map (\<lambda>k. (k, f k)) keys\<rparr>"
  have g: "getitem k ?d = [(k, f k)]"
    by (simp add: getitem_def filter_key [OF assms])
  have m: "?d\<lparr>cols := map (\<lambda>c'. if fst c' = k then (k, cs) else c') (cols ?d)\<rparr> =
           \<lparr>nrows = n, cols = map (\<lambda>k'. (k', (f(k := cs)) k')) keys\<rparr>" for cs
    by (induction keys) auto
  have "setitem_with e g k ?d =
        sbind (g (f k))
          (\<lambda>cs. Inr (?d\<lparr>cols := map (\<lambda>c'. if fst c' = k then (k, cs) else c') (cols ?d)\<rparr>))"
    unfolding setitem_with_def g by simp
  then show ?thesis
    unfolding m .
qed

lemma distinct_columns_to_insert: "distinct columns_to_insert"
  by (simp add: columns_to_insert_def)

lemma typed_labels:
  "''start_time'' \<in> set columns_to_insert" "''end_time'' \<in> set columns_to_insert"
  "''date_of_reporting'' \<in> set columns_to_insert" "''submission_time'' \<in> set columns_to_insert"
  "''age'' \<in> set columns_to_insert" "''product_pricing_satisfaction'' \<in> set columns_to_insert"
  "''customer_service_satisfaction'' \<in> set columns_to_insert"
  "''overall_satisfaction'' \<in> set columns_to_insert"
  "''submission_id'' \<in> set columns_to_insert" "''index_value'' \<in> set columns_to_insert"
  by (simp_all add: columns_to_insert_def)

lemma first_error_Cons:
  "first_error (x # xs) = (case x of Some e \<Rightarrow> Some e | None \<Rightarrow> first_error xs)"
  "first_error [] = None"
  by (simp_all add: first_error_def split: option.splits)

lemma convert_columns_selected:
  "convert_columns pd \<lparr>nrows = n, cols = map (\<lambda>k. (k, f k)) columns_to_insert\<rparr> =
     (case first_error
             [datetime_error pd (f ''start_time''), datetime_error pd (f ''end_time''),
              datetime_error pd (f ''date_of_reporting''),
              dt_error pd (datetime_cells pd (f ''date_of_reporting'')),
              datetime_error pd (f ''submission_time'')] of
        Some e \<Rightarrow> Inl e
      | None \<Rightarrow>
          if list_all int64_or_missing (to_numeric pd (f ''submission_id''))
          then Inr \<lparr>nrows = n, cols = map (\<lambda>k. (k, type_rule pd k (f k))) columns_to_insert\<rparr>
          else Inl TypeError)"
proof -
  let ?F = "f(''start_time'' := datetime_cells pd (f ''start_time''),
              ''end_time'' := datetime_cells pd (f ''end_time''),
              ''date_of_reporting'' := map date_cell (datetime_cells pd (f ''date_of_reporting'')),
              ''submission_time'' := datetime_cells pd (f ''submission_time''),
              ''age'' := to_numeric pd (f ''age''),
              ''product_pricing_satisfaction'' := to_numeric pd (f ''product_pricing_satisfaction''),
              ''customer_service_satisfaction'' := to_numeric pd (f ''customer_service_satisfaction''),
              ''overall_satisfaction'' := to_numeric pd (f ''overall_satisfaction''),
              ''submission_id'' := to_numeric pd (f ''submission_id''),
              ''index_value'' := to_numeric pd (f ''index_value''))"
  note step = setitem_keys [OF distinct_columns_to_insert]
  have a: "convert_columns pd \<lparr>nrows = n, cols = map (\<lambda>k. (k, f k)) columns_to_insert\<rparr> =
     (case first_error
             [datetime_error pd (f ''start_time''), datetime_error pd (f ''end_time''),
              datetime_error pd (f ''date_of_reporting''),
              dt_error pd (datetime_cells pd (f ''date_of_reporting'')),
              datetime_error pd (f ''submission_time'')] of
        Some e \<Rightarrow> Inl e
      | None \<Rightarrow>
          if list_all int64_or_missing (to_numeric pd (f ''submission_id''))
          then Inr \<lparr>nrows = n, cols = map (\<lambda>k. (k, ?F k)) columns_to_insert\<rparr>
          else Inl TypeError)"
    by (simp add: convert_columns_def set_datetime_def set_date_def set_numeric_def
        set_Int64_def step typed_labels sbind_def to_datetime_def dt_date_def astype_Int64_def
        first_error_Cons split: option.splits)
  have b: "map (\<lambda>k. (k, ?F k)) columns_to_insert =
           map (\<lambda>k. (k, type_rule pd k (f k))) columns_to_insert"
    by (simp add: columns_to_insert_def type_rule_def)
  show ?thesis
    unfolding a b ..
qed

lemma clean_mappable:
  "mappable df \<Longrightarrow>
   clean pd df =
     (case datetime_failure pd df of
        Some e \<Rightarrow> Inl e
      | None \<Rightarrow> if ids_castable pd df then Inr (typed_frame pd df) else Inl TypeError)"
  unfolding clean_def datetime_failure_def ids_castable_def typed_frame_def
  by (simp add: select_columns_mappable sbind_def convert_columns_selected)

lemma clean_lacking: "lacks_column df \<Longrightarrow> clean pd df = Inl KeyError"
  by (simp add: clean_def select_columns_lacking sbind_def)

lemma column_of_keys:
  "column k \<lparr>nrows = n, cols = map (\<lambda>k. (k, f k)) keys\<rparr> = (if k \<in> set keys then f k else [])"
  by (induction keys) (auto simp add: column_def getitem_def)


lemma names_typed_frame: "names (typed_frame pd df) = columns_to_insert"
  by (simp add: typed_frame_def names_def comp_def)


lemma mappable_full_row: "mappable (full_row a b)"
  by (simp add: mappable_def full_row_def one_row_def unanswered_def columns_to_insert_def
      column_renames_def rename_def getitem_def)

lemma renamed_full_row:
  "rename column_renames (full_row a b) =
     one_row [(''age'', a), (''gender'', Str ''Female''), (''submission_id'', b),
              (''start_time'', Str ''2024-01-03T10:00:00Z''), (''deviceid'', Str ''x1''),
              (''end_time'', NaN), (''date_of_reporting'', NaN), (''store_location'', NaN),
              (''product_pricing_satisfaction'', NaN), (''customer_service_satisfaction'', NaN),
              (''overall_satisfaction'', NaN), (''recommendations'', NaN),
              (''uuid'', NaN), (''submission_time'', NaN), (''validation_status'', NaN),
              (''notes'', NaN), (''status'', NaN), (''submitted_by'', NaN),
              (''version'', NaN), (''tags'', NaN), (''index_value'', NaN)]"
  by (simp add: full_row_def one_row_def unanswered_def column_renames_def rename_def)

section \<open>A completing run\<close>



















section \<open>The example rows\<close>

lemma nrows_full_row: "nrows (full_row a b) = 1" "\<not> empty (full_row a b)"
  by (simp_all add: full_row_def one_row_def empty_def)

lemma columns_full_row:
  "column ''start_time'' (rename column_renames (full_row a b)) = [Str ''2024-01-03T10:00:00Z'']"
  "column ''end_time'' (rename column_renames (full_row a b)) = [NaN]"
  "column ''date_of_reporting'' (rename column_renames (full_row a b)) = [NaN]"
  "column ''submission_time'' (rename column_renames (full_row a b)) = [NaN]"
  "column ''age'' (rename column_renames (full_row a b)) = [a]"
  "column ''gender'' (rename column_renames (full_row a b)) = [Str ''Female'']"
  "column ''submission_id'' (rename column_renames (full_row a b)) = [b]"
  by (simp_all add: renamed_full_row one_row_def column_def getitem_def)

lemma typed_full_row:
  assumes "datetime_of pd [NaN] NaN = None" and "numeric_of pd [NaN] NaN = None"
  shows "typed_frame pd (full_row a b) =
     typed_row (datetime_cell pd [Str ''2024-01-03T10:00:00Z''] (Str ''2024-01-03T10:00:00Z''))
       (numeric_cell pd [a] a) (numeric_cell pd [b] b)"
  using assms
  by (simp add: typed_frame_def nrows_full_row renamed_full_row typed_row_def one_row_def
      columns_to_insert_def column_def getitem_def type_rule_def datetime_cells_def
      to_numeric_def datetime_cell_def date_cell_def numeric_cell_def)

lemma ids_castable_full_row:
  "ids_castable pd (full_row a b) = int64_or_missing (numeric_cell pd [b] b)"
  by (simp add: ids_castable_def columns_full_row to_numeric_def)

lemma datetime_failure_full_row:
  "datetime_failure pd (full_row a b) =
     first_error [datetime_error pd [Str ''2024-01-03T10:00:00Z''], datetime_error pd [NaN],
                  datetime_error pd [NaN], dt_error pd [datetime_cell pd [NaN] NaN],
                  datetime_error pd [NaN]]"
  by (simp add: datetime_failure_def columns_full_row datetime_cells_def)

lemma sample_never_raises: "datetime_failure pandas_sample df = None"
  by (simp add: datetime_failure_def first_error_Cons pandas_sample_def)

lemma sample_cells:
  "datetime_error pandas_sample cs = None"
  "dt_error pandas_sample cs = None"
  "datetime_of pandas_sample cs NaN = None"
  "numeric_of pandas_sample cs NaN = None"
  "numeric_of pandas_sample cs (Num x) = Some x"
  "numeric_of pandas_sample cs (Str ''thirty'') = None"
  "numeric_of pandas_sample cs (Str ''34'') = Some 34"
  "numeric_of pandas_sample cs (Str ''991'') = Some 991"
  "datetime_of pandas_sample cs (Str ''2024-01-03T10:00:00Z'') = Some example_instant"
  "datetime_of pandas_sample cs (Str ''2024-01-03'') =
     Some \<lparr>ts_date = example_day, ts_hour = 0, ts_minute = 0, ts_second = 0, ts_zone = None\<rparr>"
  "numeric_cell pandas_sample cs (Num x) = Num x"
  "numeric_cell pandas_sample cs (Str ''34'') = Num 34"
  "numeric_cell pandas_sample cs (Str ''991'') = Num 991"
  "numeric_cell pandas_sample cs (Str ''thirty'') = NaN"
  "datetime_cell pandas_sample cs (Str ''2024-01-03T10:00:00Z'') = Time example_instant"
  by (simp_all add: pandas_sample_def numeric_cell_def datetime_cell_def decimal_def digit_of_def
      iso_utc_def civil_date_def clock_time_def days_in_month_def example_instant_def
      example_day_def)

lemma floor_halves: "\<lfloor>1983 / 2 :: rat\<rfloor> = 991" "\<lfloor>7 / 2 :: rat\<rfloor> = 3"
  by (simp_all add: floor_eq_iff)

lemma not_whole_examples: "\<not> is_whole (1983 / 2)" "\<not> is_whole (7 / 2)"
  unfolding is_whole_def floor_halves by simp_all

lemma int64_examples:
  "int64_or_missing (Num 991)" "int64_or_missing NaN" "\<not> int64_or_missing (Num (1983 / 2))"
  "\<not> int64_or_missing (Num 9223372036854775808)"
  by (simp_all add: int64_or_missing_def not_whole_examples in_int64_def) (simp add: is_whole_def)

lemma lacks_short_export: "lacks_column short_export"
  by (simp add: lacks_column_def short_export_def survey_answers_def unanswered_def one_row_def
      rename_def names_def column_renames_def columns_to_insert_def)

lemma lacks_survey_answers: "lacks_column (one_row survey_answers)"
  by (simp add: lacks_column_def survey_answers_def one_row_def
      rename_def names_def column_renames_def columns_to_insert_def)



section \<open>A failing run\<close>

lemma skips_verificationI:
  "issued w' = issued w @ tr \<Longrightarrow> Select_count \<notin> set tr \<Longrightarrow> Select_sample \<notin> set tr
   \<Longrightarrow> skips_verification w w'"
  by (simp add: skips_verification_def)

lemma connect_ok:
  "\<not> connect_fails ev \<Longrightarrow> \<not> db_rejects ev Select_1 \<Longrightarrow>
   create_database_connection ev w = (Inr (Some Engine), w\<lparr>issued := issued w @ [Select_1]\<rparr>)"
  by (simp add: connect_cases)

lemma provision_refused:
  "db_rejects ev Create_schema \<or> db_rejects ev Drop_table \<or> db_rejects ev Create_table \<Longrightarrow>
   fst (create_schema_and_table ev w) = Inl DatabaseError"
  by (auto simp add: create_schema_and_table_def wbind_def execute_cases apply_stmt_def)

lemma load_raises:
  "clean pd df = Inl e \<Longrightarrow> clean_and_insert_data pd ev df w = (Inl e, w)"
  "clean pd df = Inr out \<Longrightarrow> \<not> distinct (names out) \<Longrightarrow>
   clean_and_insert_data pd ev df w = (Inl DuplicateColumnError, w)"
  "clean pd df = Inr out \<Longrightarrow> distinct (names out) \<Longrightarrow> db_rejects ev (Insert_rows out) \<Longrightarrow>
   clean_and_insert_data pd ev df w =
     (Inl DatabaseError, w\<lparr>issued := issued w @ [Insert_rows out]\<rparr>)"
  by (simp_all add: clean_and_insert_data_def to_sql_def execute_cases)

lemma stage_failure_skips:
  assumes "fetch_kobo_data (http ev) = Inr (Some df)" and "\<not> empty df"
    and "create_database_connection ev w = (Inr (Some Engine), w1)"
    and "fst (create_schema_and_table ev w1) = Inl e
         \<or> (\<exists>w2. create_schema_and_table ev w1 = (Inr (), w2)
                \<and> fst (clean_and_insert_data pd ev df w2) = Inl e)"
  shows "fst (main pd ev w) = Inl e \<and> skips_verification w (snd (main pd ev w))"
proof -
  from assms(3) have w1: "issued w1 = issued w @ [Select_1]"
    by (auto simp add: connect_cases split: if_splits)
  obtain r2 w2 where p: "create_schema_and_table ev w1 = (r2, w2)"
    by (cases "create_schema_and_table ev w1")
  obtain tr2 where tr2: "issued w2 = issued w1 @ tr2"
      "Select_count \<notin> set tr2" "Select_sample \<notin> set tr2"
    using provision_issued [of ev w1] p by auto
  show ?thesis
  proof (cases r2)
    case (Inl e2)
    with assms(4) p have "e2 = e" by auto
    with Inl p assms(1,2,3) have "main pd ev w = (Inl e, w2)"
      by (simp add: main_def wbind_def)
    moreover from w1 tr2 have "skips_verification w w2"
      by (intro skips_verificationI [of _ _ "Select_1 # tr2"]) simp_all
    ultimately show ?thesis by simp
  next
    case (Inr u)
    obtain r3 w3 where l: "clean_and_insert_data pd ev df w2 = (r3, w3)"
      by (cases "clean_and_insert_data pd ev df w2")
    obtain tr3 where tr3: "issued w3 = issued w2 @ tr3"
        "Select_count \<notin> set tr3" "Select_sample \<notin> set tr3"
      using load_issued [of pd ev df w2] l by auto
    from Inr assms(4) p l have "r3 = Inl e" by auto
    with Inr p l assms(1,2,3) have "main pd ev w = (Inl e, w3)"
      by (simp add: main_def wbind_def)
    moreover from w1 tr2 tr3 have "skips_verification w w3"
      by (intro skips_verificationI [of _ _ "Select_1 # tr2 @ tr3"]) simp_all
    ultimately show ?thesis by simp
  qed
qed

section \<open>More on the example rows\<close>



lemma castable_examples:
  "ids_castable pandas_sample (full_row a (Str ''991''))"
  "ids_castable pandas_sample (full_row a (Num 991))"
  "\<not> ids_castable pandas_sample (full_row a (Num (1983 / 2)))"
  "\<not> ids_castable pandas_sample (full_row a (Num 9223372036854775808))"
  by (simp_all add: ids_castable_full_row sample_cells int64_examples)


lemma clean_full_row:
  "clean pandas_sample (full_row a b) =
     (if int64_or_missing (numeric_cell pandas_sample [b] b)
      then Inr (typed_row (Time example_instant) (numeric_cell pandas_sample [a] a)
                  (numeric_cell pandas_sample [b] b))
      else Inl TypeError)"
  by (simp add: clean_mappable mappable_full_row sample_never_raises ids_castable_full_row
      typed_full_row sample_cells)

lemma clean_shape:
  assumes "mappable df" and "clean pd df = Inr out"
  shows "out = typed_frame pd df"
  using assms by (simp add: clean_mappable split: option.splits if_splits)

section \<open>The provisioner\<close>

text \<open>
  Claim C8 (as amended). Whenever the store accepts the three statements, the provisioner
  leaves the destination table empty whatever it held before, having issued the schema
  creation, the drop and the creation in that order. The table it creates has 22 columns:
  the identity primary key \<^verbatim>\<open>id\<close>, two zoned timestamps, one timestamp without zone
  (\<^verbatim>\<open>submission_time\<close>), one date, the bigint \<^verbatim>\<open>submission_id\<close>, five integers, ten
  text or varchar columns (the string identifier \<^verbatim>\<open>uuid\<close> and nine others), and the
  insertion timestamp \<^verbatim>\<open>created_at\<close> that the server fills in.
\<close>

theorem provisioner_schema:
  assumes "\<not> db_rejects ev Create_schema" and "\<not> db_rejects ev Drop_table"
    and "\<not> db_rejects ev Create_table"
  shows "(\<exists>w'. create_schema_and_table ev w = (Inr (), w')
            \<and> feedback_table (db w') =
                Some \<lparr>tbl_columns = customer_feedback_columns, tbl_rows = []\<rparr>
            \<and> issued w' = issued w @ [Create_schema, Drop_table, Create_table])
       \<and> length customer_feedback_columns = 22
       \<and> count_type (\<lambda>t. t = Serial_primary_key) = 1
       \<and> count_type (\<lambda>t. t = Timestamp_with_time_zone) = 2
       \<and> count_type (\<lambda>t. t = Timestamp_plain) = 1
       \<and> count_type (\<lambda>t. t = Date_type) = 1
       \<and> count_type (\<lambda>t. t = Bigint) = 1
       \<and> count_type (\<lambda>t. t = Integer) = 5
       \<and> count_type is_text_type = 10
       \<and> count_type (\<lambda>t. t = Timestamp_default_now) = 1
       \<and> map_of customer_feedback_columns ''id'' = Some Serial_primary_key
       \<and> map_of customer_feedback_columns ''submission_id'' = Some Bigint
       \<and> map_of customer_feedback_columns ''uuid'' = Some (Varchar 255)
       \<and> map_of customer_feedback_columns ''created_at'' = Some Timestamp_default_now"
proof -
  have shape: "length customer_feedback_columns = 22"
    by (simp add: customer_feedback_columns_def)
  have counts:
    "count_type (\<lambda>t. t = Serial_primary_key) = 1"
    "count_type (\<lambda>t. t = Timestamp_with_time_zone) = 2"
    "count_type (\<lambda>t. t = Timestamp_plain) = 1"
    "count_type (\<lambda>t. t = Date_type) = 1"
    "count_type (\<lambda>t. t = Bigint) = 1"
    "count_type (\<lambda>t. t = Integer) = 5"
    "count_type is_text_type = 10"
    "count_type (\<lambda>t. t = Timestamp_default_now) = 1"
    by (simp_all add: count_type_def customer_feedback_columns_def is_text_type_def)
  have named:
    "map_of customer_feedback_columns ''id'' = Some Serial_primary_key"
    "map_of customer_feedback_columns ''submission_id'' = Some Bigint"
    "map_of customer_feedback_columns ''uuid'' = Some (Varchar 255)"
    "map_of customer_feedback_columns ''created_at'' = Some Timestamp_default_now"
    by (simp_all add: customer_feedback_columns_def)
  from provision_ok [OF assms, of w] shape counts named show ?thesis
    by simp
qed

theorem provisioner_schema_witness:
  "fst (create_schema_and_table (quiet_env No_reply) \<lparr>db = stale_db, issued = []\<rparr>) = Inr ()
   \<and> feedback_table (db (snd (create_schema_and_table (quiet_env No_reply)
                                 \<lparr>db = stale_db, issued = []\<rparr>))) =
       Some \<lparr>tbl_columns = customer_feedback_columns, tbl_rows = []\<rparr>
   \<and> issued (snd (create_schema_and_table (quiet_env No_reply) \<lparr>db = stale_db, issued = []\<rparr>)) =
       [Create_schema, Drop_table, Create_table]"
  using provisioner_schema [of "quiet_env No_reply" "\<lparr>db = stale_db, issued = []\<rparr>"]
  by (auto simp add: quiet_env_def)

text \<open>The specification counts 21 columns; the statement creates 22.\<close>

theorem provisioner_schema_counterexample:
  "map_option (length \<circ> tbl_columns)
     (feedback_table (db (snd (create_schema_and_table (quiet_env No_reply)
                                 \<lparr>db = stale_db, issued = []\<rparr>)))) = Some 22"
  by (simp add: provision_ok quiet_env_def customer_feedback_columns_def)


section \<open>The fetcher and the connection\<close>

text \<open>
  Claim C10. Neither \<^verbatim>\<open>fetch_kobo_data\<close> nor \<^verbatim>\<open>create_database_connection\<close> lets an
  exception reach its caller: whatever the reply of the endpoint and the state of the
  store, each returns a value, and it returns None whenever its \<^verbatim>\<open>try\<close> block raises.
  A run whose fetch raised, or whose connection attempt raised after a non-empty fetch,
  ends by a normal return of \<^verbatim>\<open>main\<close>.
\<close>

theorem fetch_and_connect_return_none:
  "(\<exists>r. fetch_kobo_data reply = Inr r)
   \<and> (\<forall>e. fetch_body reply = Inl e \<longrightarrow> fetch_kobo_data reply = Inr None)
   \<and> (\<exists>r. fst (create_database_connection ev w) = Inr r)
   \<and> (\<forall>e. fst (connect_body ev w) = Inl e \<longrightarrow> fst (create_database_connection ev w) = Inr None)
   \<and> (\<forall>e. fetch_body (http ev) = Inl e \<longrightarrow> fst (main pd ev w) = Inr No_data)
   \<and> (\<forall>df e. fetch_body (http ev) = Inr df \<and> \<not> empty df \<and> fst (connect_body ev w) = Inl e
         \<longrightarrow> fst (main pd ev w) = Inr No_engine)"
proof -
  have a: "\<exists>r. fetch_kobo_data reply = Inr r"
    by (simp add: fetch_kobo_data_def split: sum.splits)
  have b: "\<forall>e. fetch_body reply = Inl e \<longrightarrow> fetch_kobo_data reply = Inr None"
    by (simp add: fetch_kobo_data_def)
  have c: "\<exists>r. fst (create_database_connection ev w) = Inr r"
    by (simp add: connect_cases)
  have d: "\<forall>e. fst (connect_body ev w) = Inl e \<longrightarrow> fst (create_database_connection ev w) = Inr None"
    by (simp add: create_database_connection_def split: prod.splits sum.splits)
  have e: "\<forall>e. fetch_body (http ev) = Inl e \<longrightarrow> fst (main pd ev w) = Inr No_data"
    by (simp add: main_def fetch_kobo_data_def)
  have f: "\<forall>df e. fetch_body (http ev) = Inr df \<and> \<not> empty df \<and> fst (connect_body ev w) = Inl e
         \<longrightarrow> fst (main pd ev w) = Inr No_engine"
    by (auto simp add: main_def fetch_kobo_data_def wbind_def create_database_connection_def
        split: prod.splits sum.splits)
  from a b c d e f show ?thesis by blast
qed

theorem fetch_and_connect_return_none_witness:
  "fetch_body No_reply = Inl RequestException
   \<and> fetch_kobo_data No_reply = Inr None
   \<and> fst (main pandas_sample (quiet_env No_reply) \<lparr>db = stale_db, issued = []\<rparr>) = Inr No_data
   \<and> fst (connect_body (unreachable_env (Reply 200 (Parsed (full_row (Str ''34'') (Str ''991'')))))
             \<lparr>db = stale_db, issued = []\<rparr>) = Inl DatabaseError
   \<and> fst (main pandas_sample (unreachable_env (Reply 200 (Parsed (full_row (Str ''34'') (Str ''991'')))))
             \<lparr>db = stale_db, issued = []\<rparr>) = Inr No_engine"
proof -
  let ?df = "full_row (Str ''34'') (Str ''991'')"
  let ?w = "\<lparr>db = stale_db, issued = []\<rparr>"
  have a: "fetch_body No_reply = Inl RequestException"
    by (simp add: fetch_body_def)
  have b: "fetch_body (http (unreachable_env (Reply 200 (Parsed ?df)))) = Inr ?df"
    by (simp add: fetch_body_cases unreachable_env_def)
  have c: "\<not> empty ?df"
    by (simp add: empty_def full_row_def one_row_def)
  have d: "fst (connect_body (unreachable_env (Reply 200 (Parsed ?df))) ?w) = Inl DatabaseError"
    by (simp add: connect_body_cases unreachable_env_def)
  have e: "http (quiet_env No_reply) = No_reply"
    by (simp add: quiet_env_def)
  from fetch_and_connect_return_none [of No_reply "quiet_env No_reply" ?w pandas_sample] a e
  have "fetch_kobo_data No_reply = Inr None"
    and "fst (main pandas_sample (quiet_env No_reply) ?w) = Inr No_data"
    by simp_all
  moreover
  from fetch_and_connect_return_none
         [of No_reply "unreachable_env (Reply 200 (Parsed ?df))" ?w pandas_sample] b c d
  have "fst (main pandas_sample (unreachable_env (Reply 200 (Parsed ?df))) ?w) = Inr No_engine"
    by blast
  ultimately show ?thesis using a d by simp
qed

text \<open>
  Claim C5 (as amended). The fetcher returns None exactly when the request raised, the
  status is a client or server error (400 to 599, the statuses \<^verbatim>\<open>raise_for_status\<close>
  rejects), or the parser raised; for any other status it returns the parsed frame, also
  when that frame has no row. A frame without rows is not a failure of the fetcher: it is
  \<^verbatim>\<open>main\<close> that treats it as no data and returns before connecting.
\<close>

theorem fetcher_contract:
  "(fetch_kobo_data reply = Inr None \<longleftrightarrow>
      reply = No_reply
      \<or> (\<exists>status body. reply = Reply status body
            \<and> ((400 \<le> status \<and> status < 600) \<or> body = Unparsable)))
   \<and> (\<forall>status df. \<not> (400 \<le> status \<and> status < 600)
         \<longrightarrow> fetch_kobo_data (Reply status (Parsed df)) = Inr (Some df))
   \<and> (\<forall>df. fetch_kobo_data (http ev) = Inr (Some df) \<and> empty df
         \<longrightarrow> main pd ev w = (Inr No_data, w))"
proof -
  have a: "fetch_kobo_data reply = Inr None \<longleftrightarrow>
      reply = No_reply
      \<or> (\<exists>status body. reply = Reply status body
            \<and> ((400 \<le> status \<and> status < 600) \<or> body = Unparsable))"
    by (cases reply) (auto simp add: fetch_cases split: csv.splits)
  have b: "\<forall>status df. \<not> (400 \<le> status \<and> status < 600)
         \<longrightarrow> fetch_kobo_data (Reply status (Parsed df)) = Inr (Some df)"
    by (simp add: fetch_cases)
  have c: "\<forall>df. fetch_kobo_data (http ev) = Inr (Some df) \<and> empty df
         \<longrightarrow> main pd ev w = (Inr No_data, w)"
    by (simp add: main_def)
  from a b c show ?thesis by blast
qed

theorem fetcher_contract_witness:
  "fetch_kobo_data (Reply 404 (Parsed (full_row (Str ''34'') (Str ''991'')))) = Inr None
   \<and> fetch_kobo_data (Reply 200 (Parsed (full_row (Str ''34'') (Str ''991''))))
       = Inr (Some (full_row (Str ''34'') (Str ''991'')))
   \<and> main pandas_sample (quiet_env (Reply 200 (Parsed header_only))) \<lparr>db = stale_db, issued = []\<rparr>
       = (Inr No_data, \<lparr>db = stale_db, issued = []\<rparr>)"
proof -
  let ?df = "full_row (Str ''34'') (Str ''991'')"
  let ?ev = "quiet_env (Reply 200 (Parsed header_only))"
  let ?w = "\<lparr>db = stale_db, issued = []\<rparr>"
  have e: "fetch_kobo_data (http ?ev) = Inr (Some header_only) \<and> empty header_only"
    by (simp add: fetch_cases quiet_env_def empty_def header_only_def)
  from fetcher_contract [of "Reply 404 (Parsed ?df)" ?ev pandas_sample ?w]
  have "fetch_kobo_data (Reply 404 (Parsed ?df)) = Inr None"
    and "fetch_kobo_data (Reply 200 (Parsed ?df)) = Inr (Some ?df)"
    and "fetch_kobo_data (http ?ev) = Inr (Some header_only) \<and> empty header_only
           \<longrightarrow> main pandas_sample ?ev ?w = (Inr No_data, ?w)"
    by simp_all
  with e show ?thesis by blast
qed

text \<open>
  The specification makes a reply that parses to zero rows a failure of the fetch; the
  fetcher returns it as a frame.
\<close>

theorem fetcher_contract_counterexample:
  "fetch_kobo_data (Reply 200 (Parsed header_only)) = Inr (Some header_only)
   \<and> nrows header_only = 0"
  by (simp add: fetch_cases header_only_def)

section \<open>The orchestrator\<close>

text \<open>
  Claim C4. When the fetch returns None or a frame without rows, or when the connection
  attempt returns None, \<^verbatim>\<open>main\<close> returns normally without reaching the provisioning
  stage: the store is left as it was, and the only statement the run may have issued is
  the \<^verbatim>\<open>SELECT 1\<close> of the connection test, so no drop, creation or insert.
\<close>

theorem empty_fetch_leaves_store_untouched:
  assumes "fetch_kobo_data (http ev) = Inr None
           \<or> (\<exists>df. fetch_kobo_data (http ev) = Inr (Some df) \<and> empty df)
           \<or> fst (create_database_connection ev w) = Inr None"
  shows "(fst (main pd ev w) = Inr No_data \<or> fst (main pd ev w) = Inr No_engine)
       \<and> db (snd (main pd ev w)) = db w
       \<and> (issued (snd (main pd ev w)) = issued w
            \<or> issued (snd (main pd ev w)) = issued w @ [Select_1])"
proof (cases "fetch_kobo_data (http ev)")
  case (Inl e)
  then show ?thesis by (simp add: fetch_cases split: http_reply.splits csv.splits if_splits)
next
  case (Inr r)
  show ?thesis
  proof (cases r)
    case None
    with Inr show ?thesis by (simp add: main_def)
  next
    case (Some df)
    show ?thesis
    proof (cases "empty df")
      case True
      with Inr Some show ?thesis by (simp add: main_def)
    next
      case False
      with assms Inr Some have "fst (create_database_connection ev w) = Inr None"
        by simp
      then have "connect_fails ev \<or> db_rejects ev Select_1"
        by (simp add: connect_cases split: if_splits)
      with Inr Some False show ?thesis
        by (auto simp add: main_def wbind_def connect_cases)
    qed
  qed
qed


theorem empty_fetch_leaves_store_untouched_witness:
  "fetch_kobo_data (http (quiet_env (Reply 200 (Parsed header_only)))) = Inr (Some header_only)
   \<and> empty header_only
   \<and> main pandas_sample (quiet_env (Reply 200 (Parsed header_only))) \<lparr>db = stale_db, issued = []\<rparr>
       = (Inr No_data, \<lparr>db = stale_db, issued = []\<rparr>)"
proof -
  let ?ev = "quiet_env (Reply 200 (Parsed header_only))"
  let ?w = "\<lparr>db = stale_db, issued = []\<rparr>"
  have a: "fetch_kobo_data (http ?ev) = Inr (Some header_only)"
    by (simp add: fetch_cases quiet_env_def)
  have b: "empty header_only"
    by (simp add: empty_def header_only_def)
  have c: "fst (create_database_connection ?ev ?w) \<noteq> Inr None"
    by (simp add: connect_cases quiet_env_def)
  have d: "issued (snd (main pandas_sample ?ev ?w)) \<noteq> [Select_1]"
    using a b by (simp add: main_def)
  from empty_fetch_leaves_store_untouched [of ?ev ?w pandas_sample] a b
  have "fst (main pandas_sample ?ev ?w) = Inr No_data \<or> fst (main pandas_sample ?ev ?w) = Inr No_engine"
    and "db (snd (main pandas_sample ?ev ?w)) = stale_db"
    and "issued (snd (main pandas_sample ?ev ?w)) = [] \<or> issued (snd (main pandas_sample ?ev ?w)) = [Select_1]"
    by auto
  with a b show ?thesis by (simp add: main_def)
qed

text \<open>
  Claim C9. Take a run whose fetch returned a frame with rows and whose connection
  succeeded. When the store refuses one of the three provisioning statements,
  \<^verbatim>\<open>create_schema_and_table\<close> raises and \<^verbatim>\<open>main\<close> raises that error. When the store accepts
  them and the cleaning raises, or \<^verbatim>\<open>to_sql\<close> refuses the cleaned frame for two columns of
  one label, or the store refuses the insert, \<^verbatim>\<open>clean_and_insert_data\<close> raises and \<^verbatim>\<open>main\<close>
  raises that error. And whenever one of the two stages raises, for whatever reason,
  \<^verbatim>\<open>main\<close> raises the same error. In each case the run has issued neither the count query
  nor the sample select.
\<close>

theorem failure_skips_verification:
  assumes "fetch_kobo_data (http ev) = Inr (Some df)" and "\<not> empty df"
    and "\<not> connect_fails ev" and "\<not> db_rejects ev Select_1"
  shows "(db_rejects ev Create_schema \<or> db_rejects ev Drop_table \<or> db_rejects ev Create_table
            \<longrightarrow> fst (create_schema_and_table ev w') = Inl DatabaseError
              \<and> fst (main pd ev w) = Inl DatabaseError
              \<and> skips_verification w (snd (main pd ev w)))
       \<and> (\<not> db_rejects ev Create_schema \<and> \<not> db_rejects ev Drop_table
            \<and> \<not> db_rejects ev Create_table
            \<longrightarrow> (\<forall>e. clean pd df = Inl e
                    \<longrightarrow> fst (clean_and_insert_data pd ev df w') = Inl e
                      \<and> fst (main pd ev w) = Inl e
                      \<and> skips_verification w (snd (main pd ev w)))
              \<and> (\<forall>out. clean pd df = Inr out \<and> \<not> distinct (names out)
                    \<longrightarrow> fst (clean_and_insert_data pd ev df w') = Inl DuplicateColumnError
                      \<and> fst (main pd ev w) = Inl DuplicateColumnError
                      \<and> skips_verification w (snd (main pd ev w)))
              \<and> (\<forall>out. clean pd df = Inr out \<and> distinct (names out)
                      \<and> db_rejects ev (Insert_rows out)
                    \<longrightarrow> fst (clean_and_insert_data pd ev df w') = Inl DatabaseError
                      \<and> fst (main pd ev w) = Inl DatabaseError
                      \<and> skips_verification w (snd (main pd ev w))))
       \<and> (\<forall>e. fst (create_schema_and_table ev (w\<lparr>issued := issued w @ [Select_1]\<rparr>)) = Inl e
                \<or> (\<exists>w2. create_schema_and_table ev (w\<lparr>issued := issued w @ [Select_1]\<rparr>)
                            = (Inr (), w2)
                       \<and> fst (clean_and_insert_data pd ev df w2) = Inl e)
            \<longrightarrow> fst (main pd ev w) = Inl e \<and> skips_verification w (snd (main pd ev w)))"
proof -
  let ?w1 = "w\<lparr>issued := issued w @ [Select_1]\<rparr>"
  note c = connect_ok [OF assms(3,4), of w]
  note stage = stage_failure_skips [OF assms(1,2) c]
  have a: "fst (create_schema_and_table ev w') = Inl DatabaseError
              \<and> fst (main pd ev w) = Inl DatabaseError
              \<and> skips_verification w (snd (main pd ev w))"
    if r: "db_rejects ev Create_schema \<or> db_rejects ev Drop_table \<or> db_rejects ev Create_table"
    using provision_refused [OF r, of w'] provision_refused [OF r, of ?w1] stage [of DatabaseError pd]
    by simp
  have b: "fst (clean_and_insert_data pd ev df w') = Inl e
           \<and> fst (main pd ev w) = Inl e \<and> skips_verification w (snd (main pd ev w))"
    if r: "\<not> db_rejects ev Create_schema" "\<not> db_rejects ev Drop_table"
      "\<not> db_rejects ev Create_table"
      and l: "\<And>v. fst (clean_and_insert_data pd ev df v) = Inl e" for e
  proof -
    from provision_ok [OF r, of ?w1] obtain w2 where
      "create_schema_and_table ev ?w1 = (Inr (), w2)" by blast
    with l [of w2] stage [of e pd] l [of w'] show ?thesis by blast
  qed
  have b1: "fst (clean_and_insert_data pd ev df w') = Inl e
           \<and> fst (main pd ev w) = Inl e \<and> skips_verification w (snd (main pd ev w))"
    if "\<not> db_rejects ev Create_schema" "\<not> db_rejects ev Drop_table"
      "\<not> db_rejects ev Create_table" "clean pd df = Inl e" for e
    using that by (intro b) (simp_all add: load_raises)
  have b2: "fst (clean_and_insert_data pd ev df w') = Inl DuplicateColumnError
           \<and> fst (main pd ev w) = Inl DuplicateColumnError
           \<and> skips_verification w (snd (main pd ev w))"
    if "\<not> db_rejects ev Create_schema" "\<not> db_rejects ev Drop_table"
      "\<not> db_rejects ev Create_table" "clean pd df = Inr out" "\<not> distinct (names out)" for out
    using that by (intro b) (simp_all add: load_raises)
  have b3: "fst (clean_and_insert_data pd ev df w') = Inl DatabaseError
           \<and> fst (main pd ev w) = Inl DatabaseError
           \<and> skips_verification w (snd (main pd ev w))"
    if "\<not> db_rejects ev Create_schema" "\<not> db_rejects ev Drop_table"
      "\<not> db_rejects ev Create_table" "clean pd df = Inr out" "distinct (names out)"
      "db_rejects ev (Insert_rows out)" for out
    using that by (intro b) (simp_all add: load_raises)
  from a b1 b2 b3 stage show ?thesis
    by blast
qed

theorem failure_skips_verification_witness:
  "fst (main pandas_sample
          (refusing_env (Reply 200 (Parsed (full_row (Str ''34'') (Str ''991'')))) Create_table)
          \<lparr>db = stale_db, issued = []\<rparr>) = Inl DatabaseError
   \<and> skips_verification \<lparr>db = stale_db, issued = []\<rparr>
        (snd (main pandas_sample
          (refusing_env (Reply 200 (Parsed (full_row (Str ''34'') (Str ''991'')))) Create_table)
          \<lparr>db = stale_db, issued = []\<rparr>))
   \<and> fst (main pandas_sample (quiet_env (Reply 200 (Parsed short_export)))
          \<lparr>db = stale_db, issued = []\<rparr>) = Inl KeyError
   \<and> skips_verification \<lparr>db = stale_db, issued = []\<rparr>
        (snd (main pandas_sample (quiet_env (Reply 200 (Parsed short_export)))
          \<lparr>db = stale_db, issued = []\<rparr>))
   \<and> fst (main pandas_sample
          (refusing_env (Reply 200 (Parsed (full_row (Str ''34'') (Str ''991''))))
             (Insert_rows (typed_row (Time example_instant) (Num 34) (Num 991))))
          \<lparr>db = stale_db, issued = []\<rparr>) = Inl DatabaseError
   \<and> skips_verification \<lparr>db = stale_db, issued = []\<rparr>
        (snd (main pandas_sample
          (refusing_env (Reply 200 (Parsed (full_row (Str ''34'') (Str ''991''))))
             (Insert_rows (typed_row (Time example_instant) (Num 34) (Num 991))))
          \<lparr>db = stale_db, issued = []\<rparr>))"
proof -
  let ?df = "full_row (Str ''34'') (Str ''991'')"
  let ?out = "typed_row (Time example_instant) (Num 34) (Num 991)"
  let ?w = "\<lparr>db = stale_db, issued = []\<rparr>"
  let ?ev1 = "refusing_env (Reply 200 (Parsed ?df)) Create_table"
  let ?ev2 = "quiet_env (Reply 200 (Parsed short_export))"
  let ?ev3 = "refusing_env (Reply 200 (Parsed ?df)) (Insert_rows ?out)"
  have e1: "fetch_kobo_data (http ?ev1) = Inr (Some ?df)" "\<not> connect_fails ?ev1"
    "\<not> db_rejects ?ev1 Select_1" "db_rejects ?ev1 Create_table"
    by (simp_all add: fetch_cases refusing_env_def)
  have e2: "fetch_kobo_data (http ?ev2) = Inr (Some short_export)" "\<not> connect_fails ?ev2"
    "\<not> db_rejects ?ev2 Select_1" "\<not> db_rejects ?ev2 Create_schema"
    "\<not> db_rejects ?ev2 Drop_table" "\<not> db_rejects ?ev2 Create_table"
    by (simp_all add: fetch_cases quiet_env_def)
  have e3: "fetch_kobo_data (http ?ev3) = Inr (Some ?df)" "\<not> connect_fails ?ev3"
    "\<not> db_rejects ?ev3 Select_1" "\<not> db_rejects ?ev3 Create_schema"
    "\<not> db_rejects ?ev3 Drop_table" "\<not> db_rejects ?ev3 Create_table"
    "db_rejects ?ev3 (Insert_rows ?out)"
    by (simp_all add: fetch_cases refusing_env_def)
  have n: "\<not> empty ?df" "\<not> empty short_export"
    by (simp_all add: nrows_full_row) (simp add: empty_def short_export_def one_row_def survey_answers_def)
  have k: "clean pandas_sample short_export = Inl KeyError"
    by (simp add: lacks_short_export clean_lacking)
  have c: "clean pandas_sample ?df = Inr ?out"
    by (simp add: clean_full_row sample_cells int64_examples)
  have d: "distinct (names ?out)"
    by (simp add: typed_row_def one_row_def names_def)
  from failure_skips_verification [OF e1(1) n(1) e1(2,3), of ?w pandas_sample ?w] e1(4)
  have a1: "fst (main pandas_sample ?ev1 ?w) = Inl DatabaseError"
    "skips_verification ?w (snd (main pandas_sample ?ev1 ?w))"
    by blast+
  from failure_skips_verification [OF e2(1) n(2) e2(2,3), of ?w pandas_sample ?w] e2(4,5,6) k
  have a2: "fst (main pandas_sample ?ev2 ?w) = Inl KeyError"
    "skips_verification ?w (snd (main pandas_sample ?ev2 ?w))"
    by blast+
  from failure_skips_verification [OF e3(1) n(1) e3(2,3), of ?w pandas_sample ?w] e3(4,5,6,7) c d
  have a3: "fst (main pandas_sample ?ev3 ?w) = Inl DatabaseError"
    "skips_verification ?w (snd (main pandas_sample ?ev3 ?w))"
    by blast+
  from a1 a2 a3 show ?thesis by blast
qed




section \<open>The schema mapper\<close>

text \<open>
  Claim C1 (as amended). When, after renaming, each of the twenty destination labels is
  carried by exactly one column of the source frame, the column selection yields a frame
  with exactly the twenty destination columns in the fixed order, each with the cells of
  the source column of that label, whatever other columns the source has; every result
  of the whole mapping stage has these twenty columns and the row count of the source;
  and the stage does yield a result when moreover the library raises on no timestamp or
  date column and the submission ids cast to Int64. When a destination label is carried
  by no column the selection raises KeyError: a missing column is an error, not a column
  of missing cells.
\<close>

theorem mapping_has_destination_columns:
  "(mappable df \<longrightarrow>
      (\<exists>d. select_columns df = Inr d \<and> names d = columns_to_insert \<and> length (cols d) = 20
            \<and> nrows d = nrows df
            \<and> (\<forall>k \<in> set columns_to_insert. column k d = column k (rename column_renames df))))
   \<and> (mappable df \<longrightarrow>
        (\<forall>out. clean pd df = Inr out
           \<longrightarrow> names out = columns_to_insert \<and> length (cols out) = 20 \<and> nrows out = nrows df))
   \<and> (mappable df \<and> datetime_failure pd df = None \<and> ids_castable pd df \<longrightarrow>
        (\<exists>out. clean pd df = Inr out \<and> names out = columns_to_insert \<and> length (cols out) = 20
              \<and> nrows out = nrows df))
   \<and> (lacks_column df \<longrightarrow> select_columns df = Inl KeyError \<and> clean pd df = Inl KeyError)"
proof -
  have len: "length columns_to_insert = 20"
    by (simp add: columns_to_insert_def)
  have t: "names (typed_frame pd df) = columns_to_insert \<and> length (cols (typed_frame pd df)) = 20
           \<and> nrows (typed_frame pd df) = nrows df"
    by (simp add: names_typed_frame) (simp add: typed_frame_def len)
  have a: "mappable df \<longrightarrow>
      (\<exists>d. select_columns df = Inr d \<and> names d = columns_to_insert \<and> length (cols d) = 20
            \<and> nrows d = nrows df
            \<and> (\<forall>k \<in> set columns_to_insert. column k d = column k (rename column_renames df)))"
    by (simp add: select_columns_mappable names_def comp_def len column_of_keys)
  have b: "mappable df \<longrightarrow>
        (\<forall>out. clean pd df = Inr out
           \<longrightarrow> names out = columns_to_insert \<and> length (cols out) = 20 \<and> nrows out = nrows df)"
    using t clean_shape [of df pd] by blast
  have c: "mappable df \<and> datetime_failure pd df = None \<and> ids_castable pd df \<longrightarrow>
        (\<exists>out. clean pd df = Inr out \<and> names out = columns_to_insert \<and> length (cols out) = 20
              \<and> nrows out = nrows df)"
    using t by (simp add: clean_mappable)
  have d: "lacks_column df \<longrightarrow> select_columns df = Inl KeyError \<and> clean pd df = Inl KeyError"
    by (simp add: select_columns_lacking clean_lacking)
  from a b c d show ?thesis by blast
qed

theorem mapping_has_destination_columns_witness:
  "names (full_row (Str ''34'') (Str ''991'')) =
     [''Age'', ''Gender'', ''_id'', ''start'', ''deviceid'', ''end'', ''Date of reporting'',
      ''Store Location'', ''How satisfy are you with the product pricing'',
      ''How satified are you with the customers services'',
      ''What is your overall satisfaction'', ''What are your recommendations'', ''_uuid'',
      ''_submission_time'', ''_validation_status'', ''_notes'', ''_status'', ''_submitted_by'',
      ''__version__'', ''_tags'', ''_index'']
   \<and> map_sum id names (clean pandas_sample (full_row (Str ''34'') (Str ''991''))) =
       Inr columns_to_insert
   \<and> clean pandas_sample short_export = Inl KeyError"
proof -
  let ?df = "full_row (Str ''34'') (Str ''991'')"
  have n: "names ?df =
     [''Age'', ''Gender'', ''_id'', ''start'', ''deviceid'', ''end'', ''Date of reporting'',
      ''Store Location'', ''How satisfy are you with the product pricing'',
      ''How satified are you with the customers services'',
      ''What is your overall satisfaction'', ''What are your recommendations'', ''_uuid'',
      ''_submission_time'', ''_validation_status'', ''_notes'', ''_status'', ''_submitted_by'',
      ''__version__'', ''_tags'', ''_index'']"
    by (simp add: names_def full_row_def one_row_def unanswered_def)
  from mapping_has_destination_columns [of ?df pandas_sample] mappable_full_row
    sample_never_raises castable_examples(1)
  obtain out where "clean pandas_sample ?df = Inr out" "names out = columns_to_insert"
    by blast
  moreover
  from mapping_has_destination_columns [of short_export pandas_sample] lacks_short_export
  have "clean pandas_sample short_export = Inl KeyError"
    by blast
  ultimately show ?thesis using n by simp
qed

text \<open>An export without the tags column is refused, where the specification fills it in.\<close>

theorem mapping_has_destination_columns_counterexample:
  "lacks_column short_export \<and> select_columns short_export = Inl KeyError
   \<and> clean pandas_sample short_export = Inl KeyError"
  by (simp add: lacks_short_export select_columns_lacking clean_lacking)




text \<open>
  Claim C6 (as amended). Let the source frame hold the row with \<^verbatim>\<open>Age\<close> \<^verbatim>\<open>"34"\<close>,
  \<^verbatim>\<open>Gender\<close> \<^verbatim>\<open>"Female"\<close>, \<^verbatim>\<open>_id\<close> \<^verbatim>\<open>"991"\<close> and \<^verbatim>\<open>start\<close> \<^verbatim>\<open>"2024-01-03T10:00:00Z"\<close>, and
  let it also carry the other sixteen columns of the export, left blank. With a library
  that reads the two numbers and the instant as pandas does, keeps a missing cell
  missing and raises on none of these one-cell columns, the mapping stage yields the row
  with age 34, gender \<^verbatim>\<open>Female\<close>, submission id 991, the start time 2024-01-03 10:00:00
  in UTC, and every other destination column missing.
\<close>

theorem example_row_mapping:
  assumes "numeric_of pd [Str ''34''] (Str ''34'') = Some 34"
    and "numeric_of pd [Str ''991''] (Str ''991'') = Some 991"
    and "datetime_of pd [Str ''2024-01-03T10:00:00Z''] (Str ''2024-01-03T10:00:00Z'') =
           Some example_instant"
    and "datetime_error pd [Str ''2024-01-03T10:00:00Z''] = None"
    and "datetime_error pd [NaN] = None" and "dt_error pd [NaN] = None"
    and "datetime_of pd [NaN] NaN = None" and "numeric_of pd [NaN] NaN = None"
  shows "clean pd (full_row (Str ''34'') (Str ''991'')) =
           Inr (typed_row (Time example_instant) (Num 34) (Num 991))
       \<and> ts_zone example_instant = Some 0"
proof -
  from assms(2) have i: "ids_castable pd (full_row (Str ''34'') (Str ''991''))"
    by (simp add: ids_castable_full_row numeric_cell_def int64_examples)
  from assms(4,5,6,7) have f: "datetime_failure pd (full_row (Str ''34'') (Str ''991'')) = None"
    by (simp add: datetime_failure_full_row first_error_Cons datetime_cell_def)
  from assms i f show ?thesis
    by (simp add: clean_mappable mappable_full_row typed_full_row numeric_cell_def
        datetime_cell_def example_instant_def)
qed

theorem example_row_mapping_witness:
  "clean pandas_sample (full_row (Str ''34'') (Str ''991'')) =
     Inr (typed_row (Time example_instant) (Num 34) (Num 991))"
  using example_row_mapping [of pandas_sample]
  by (simp add: sample_cells)

text \<open>The row of the specification alone, with its four columns, is refused with KeyError.\<close>

theorem example_row_mapping_counterexample:
  "clean pandas_sample (one_row survey_answers) = Inl KeyError"
  by (simp add: lacks_survey_answers clean_lacking)




end
